theory Spec2Isabelle
  imports Main
begin

section \<open>Native values\<close>

text \<open>
  A \<^typ>\<open>string\<close> is a sequence of bytes. The source hands \<open>std::string\<close> values to
  the C interfaces of GLib and libnotify through \<open>c_str()\<close>; a C function reads such a
  pointer up to the first NUL byte, which is what \<open>c_str\<close> returns here. A \<open>char*\<close> that
  comes from the native side (a capability name, a quark's string) is modelled by the
  bytes before its terminating NUL.
\<close>

abbreviation NUL :: char where
  "NUL \<equiv> CHR 0x00"

definition c_str :: "string \<Rightarrow> string" where
  "c_str s = takeWhile (\<lambda>c. c \<noteq> NUL) s"

text \<open>\<open>GError\<close>: the error domain (a quark), the code and the message.\<close>

datatype GError = GError (err_domain: nat) (err_code: int) (err_message: string)

text \<open>
  \<open>SkBitmap\<close>, as far as \<open>Show\<close> looks at it: \<open>drawsNothing()\<close> is Skia's
  \<open>empty() || isNull()\<close>. The conversion to a \<open>GdkPixbuf\<close> is an opaque function of
  the presentation layer.
\<close>

record SkBitmap =
  width :: nat
  height :: nat
  hasPixels :: bool

definition drawsNothing :: "SkBitmap \<Rightarrow> bool" where
  "drawsNothing b = (width b = 0 \<or> height b = 0 \<or> \<not> hasPixels b)"

datatype GdkPixbuf = GdkPixbufFromSkBitmap SkBitmap

text \<open>
  The native handle \<open>NotifyNotification*\<close>: what the calls of \<open>Show\<close> leave on the
  object. \<open>properties\<close> holds the GObject properties set by name (\<open>"id"\<close> is the
  only one the source sets), \<open>hints\<close> is the hint table, \<open>actions\<close> the registered
  (key, label) pairs, \<open>signal_handlers\<close> the names of the signals a handler of this
  notification is connected to. The functions below are those of libnotify and GObject,
  by their documented effect on the handle.
\<close>

record NotifyNotification =
  summary :: string
  body_text :: string
  signal_handlers :: "string list"
  actions :: "(string \<times> string) list"
  image_pixbuf :: "GdkPixbuf option"
  timeout :: "int option"
  properties :: "string \<rightharpoonup> nat"
  hints :: "string \<rightharpoonup> string"

definition NOTIFY_EXPIRES_DEFAULT :: int where
  "NOTIFY_EXPIRES_DEFAULT = - 1"

definition notify_notification_new :: "string \<Rightarrow> string \<Rightarrow> NotifyNotification" where
  "notify_notification_new s b =
     \<lparr>summary = s, body_text = b, signal_handlers = [], actions = [],
      image_pixbuf = None, timeout = None, properties = Map.empty, hints = Map.empty\<rparr>"

definition g_signal_connect :: "NotifyNotification \<Rightarrow> string \<Rightarrow> NotifyNotification" where
  "g_signal_connect n detailed_signal = n\<lparr>signal_handlers := signal_handlers n @ [detailed_signal]\<rparr>"

definition notify_notification_add_action ::
  "NotifyNotification \<Rightarrow> string \<Rightarrow> string \<Rightarrow> NotifyNotification" where
  "notify_notification_add_action n key label = n\<lparr>actions := actions n @ [(key, label)]\<rparr>"

definition notify_notification_set_image_from_pixbuf ::
  "NotifyNotification \<Rightarrow> GdkPixbuf \<Rightarrow> NotifyNotification" where
  "notify_notification_set_image_from_pixbuf n p = n\<lparr>image_pixbuf := Some p\<rparr>"

definition notify_notification_set_timeout :: "NotifyNotification \<Rightarrow> int \<Rightarrow> NotifyNotification" where
  "notify_notification_set_timeout n t = n\<lparr>timeout := Some t\<rparr>"

definition g_object_set :: "NotifyNotification \<Rightarrow> string \<Rightarrow> nat \<Rightarrow> NotifyNotification" where
  "g_object_set n property_name v = n\<lparr>properties := (properties n)(property_name \<mapsto> v)\<rparr>"

definition notify_notification_set_hint_string ::
  "NotifyNotification \<Rightarrow> string \<Rightarrow> string \<Rightarrow> NotifyNotification" where
  "notify_notification_set_hint_string n key v = n\<lparr>hints := (hints n)(key \<mapsto> v)\<rparr>"


section \<open>The process and its environment\<close>

text \<open>The four signals of the delegate.\<close>

datatype signal = Sig_displayed | Sig_dismissed | Sig_clicked | Sig_failed

text \<open>
  What a run leaves behind, in order: the calls into the loader and the service that
  the claims count, the lines of the error log, and the signals sent to the delegate.
  The two calls of the destructor carry their pointer argument (\<open>None\<close> is the null
  pointer).
\<close>

datatype event =
    Call_Load string
  | Call_notify_is_initted
  | Call_notify_init string
  | Call_notify_get_server_caps
  | Call_notify_notification_show
  | Call_notify_notification_close
  | Call_g_signal_handlers_disconnect_by_data "NotifyNotification option"
  | Call_g_object_unref "NotifyNotification option"
  | LOG_ERROR string GError
  | Delegate signal

text \<open>
  The answers of the outside world during one call: the process environment, the
  capability list the service advertises, which library names the loader can bind,
  the replies of \<open>notify_is_initted\<close> and \<open>notify_init\<close>, the application name, and
  the errors that \<open>notify_notification_show\<close> and \<open>notify_notification_close\<close> report
  (\<open>None\<close>: the \<open>GError*\<close> stays null). Successive calls may see different answers.
\<close>

record env =
  getenv :: "string \<rightharpoonup> string"
  server_caps :: "string list"
  Load_reply :: "string \<Rightarrow> bool"
  notify_is_initted_reply :: bool
  notify_init_reply :: bool
  GetApplicationName :: string
  show_error :: "GError option"
  close_error :: "GError option"

text \<open>
  The state of the process: the two function-local statics of
  \<open>NotifierSupportsActions\<close>, the library \<open>libnotify_loader_\<close> is bound to, GLib's
  quark table (quark \<open>q > 0\<close> names the string at position \<open>q - 1\<close>; \<open>GQuark\<close> is a
  32-bit unsigned integer, the table is taken to stay below that size), and the trace.
\<close>

record process =
  notify_has_result :: bool
  notify_result :: bool
  loaded :: "string option"
  quarks :: "string list"
  trace :: "event list"

definition process_start :: process where
  "process_start =
     \<lparr>notify_has_result = False, notify_result = False, loaded = None, quarks = [],
      trace = []\<rparr>"

definition emit :: "event \<Rightarrow> process \<Rightarrow> process" where
  "emit ev st = st\<lparr>trace := trace st @ [ev]\<rparr>"


section \<open>GLib\<close>

text \<open>\<open>g_strcmp0\<close> on two non-null strings: the sign of the bytewise comparison.\<close>

fun g_strcmp0 :: "string \<Rightarrow> string \<Rightarrow> int" where
  "g_strcmp0 [] [] = 0"
| "g_strcmp0 [] (y # ys) = - 1"
| "g_strcmp0 (x # xs) [] = 1"
| "g_strcmp0 (x # xs) (y # ys) =
     (if x = y then g_strcmp0 xs ys
      else if (of_char x :: nat) < of_char y then - 1 else 1)"

text \<open>
  \<open>g_list_find_custom\<close>: the first node whose data compares equal (the comparison
  function returns 0), as the rest of the list from that node on; \<open>None\<close> is the null
  result. The empty list is the null \<open>GList*\<close>.
\<close>

fun g_list_find_custom :: "'a list \<Rightarrow> 'b \<Rightarrow> ('a \<Rightarrow> 'b \<Rightarrow> int) \<Rightarrow> 'a list option" where
  "g_list_find_custom [] d f = None"
| "g_list_find_custom (x # xs) d f =
     (if f x d = 0 then Some (x # xs) else g_list_find_custom xs d f)"

text \<open>
  \<open>g_quark_from_string\<close> on a non-null string: the quark of the string when the table
  has it, a new quark (the next position) otherwise.
\<close>

fun quark_lookup :: "string list \<Rightarrow> string \<Rightarrow> nat \<Rightarrow> nat option" where
  "quark_lookup [] s q = None"
| "quark_lookup (x # xs) s q = (if x = s then Some q else quark_lookup xs s (Suc q))"

definition g_quark_from_string :: "string \<Rightarrow> process \<Rightarrow> nat \<times> process" where
  "g_quark_from_string s st =
     (case quark_lookup (quarks st) s 1 of
        Some q \<Rightarrow> (q, st)
      | None \<Rightarrow> (Suc (length (quarks st)), st\<lparr>quarks := quarks st @ [s]\<rparr>))"


section \<open>Capability negotiation\<close>

definition notify_get_server_caps :: "env \<Rightarrow> process \<Rightarrow> string list \<times> process" where
  "notify_get_server_caps e st = (server_caps e, emit Call_notify_get_server_caps st)"

definition HasCapability :: "env \<Rightarrow> string \<Rightarrow> process \<Rightarrow> bool \<times> process" where
  "HasCapability e capability st =
     (case notify_get_server_caps e st of
        (capabilities, st1) \<Rightarrow>
          (if g_list_find_custom capabilities (c_str capability) g_strcmp0 \<noteq> None
           then (True, st1) else (False, st1)))"

definition NotifierSupportsActions :: "env \<Rightarrow> process \<Rightarrow> bool \<times> process" where
  "NotifierSupportsActions e st =
     (if getenv e ''ELECTRON_USE_UBUNTU_NOTIFIER'' \<noteq> None then (False, st)
      else if notify_has_result st then (notify_result st, st)
      else (case HasCapability e ''actions'' st of
              (r, st1) \<Rightarrow> (r, st1\<lparr>notify_result := r\<rparr>)))"

definition log_and_clear_error :: "GError \<Rightarrow> string \<Rightarrow> process \<Rightarrow> process" where
  "log_and_clear_error error context_str st = emit (LOG_ERROR context_str error) st"


section \<open>Binding the library\<close>

text \<open>The short-circuit \<open>&&\<close> and \<open>!\<close> of the source, on calls that change the state.\<close>

definition and_also ::
  "(process \<Rightarrow> bool \<times> process) \<Rightarrow> (process \<Rightarrow> bool \<times> process) \<Rightarrow> process \<Rightarrow> bool \<times> process" where
  "and_also f g st = (case f st of (b, st1) \<Rightarrow> if b then g st1 else (False, st1))"

definition negate :: "(process \<Rightarrow> bool \<times> process) \<Rightarrow> process \<Rightarrow> bool \<times> process" where
  "negate f st = (case f st of (b, st1) \<Rightarrow> (\<not> b, st1))"

definition Load :: "env \<Rightarrow> string \<Rightarrow> process \<Rightarrow> bool \<times> process" where
  "Load e name st =
     (if Load_reply e name then (True, (emit (Call_Load name) st)\<lparr>loaded := Some name\<rparr>)
      else (False, emit (Call_Load name) st))"

definition notify_is_initted :: "env \<Rightarrow> process \<Rightarrow> bool \<times> process" where
  "notify_is_initted e st = (notify_is_initted_reply e, emit Call_notify_is_initted st)"

definition notify_init :: "env \<Rightarrow> string \<Rightarrow> process \<Rightarrow> bool \<times> process" where
  "notify_init e name st = (notify_init_reply e, emit (Call_notify_init name) st)"

definition Initialize :: "env \<Rightarrow> process \<Rightarrow> bool \<times> process" where
  "Initialize e st =
     (case and_also (negate (Load e ''libnotify.so.4''))
             (and_also (negate (Load e ''libnotify.so.1''))
                (negate (Load e ''libnotify.so''))) st of
        (none_bound, st1) \<Rightarrow>
          if none_bound then (False, st1)
          else (case and_also (negate (notify_is_initted e))
                       (negate (notify_init e (c_str (GetApplicationName e)))) st1 of
                  (init_failed, st2) \<Rightarrow>
                    if init_failed then (False, st2) else (True, st2)))"


section \<open>The notification\<close>

text \<open>
  The class \<open>LibnotifyNotification\<close> and its base class \<open>Notification\<close>. Of the
  base class (which is not among the sources) the model keeps whether the object has
  been torn down; the delegate receives its signals through the trace.
\<close>

record Notification =
  destroyed :: bool

record LibnotifyNotification = Notification +
  notification :: "NotifyNotification option"

text \<open>
  Modelled from the spec: \<open>Notification::Destroy()\<close>, of the base class that is not
  among the sources: the local forced teardown into the state Destroyed, which sends
  no signal.
\<close>

definition Destroy ::
  "LibnotifyNotification \<Rightarrow> process \<Rightarrow> LibnotifyNotification \<times> process" where
  "Destroy this st = (this\<lparr>destroyed := True\<rparr>, st)"

text \<open>
  Modelled from the spec: \<open>Notification::NotificationFailed()\<close>, of the base class
  that is not among the sources: the transition to Failed, which signals the delegate
  once with "failed".
\<close>

definition NotificationFailed ::
  "LibnotifyNotification \<Rightarrow> process \<Rightarrow> LibnotifyNotification \<times> process" where
  "NotificationFailed this st = (this, emit (Delegate Sig_failed) st)"

text \<open>
  Modelled from the spec: \<open>Notification::NotificationDismissed()\<close>, of the base class
  that is not among the sources: the transition to Dismissed, which signals the
  delegate once with "dismissed".
\<close>

definition NotificationDismissed ::
  "LibnotifyNotification \<Rightarrow> process \<Rightarrow> LibnotifyNotification \<times> process" where
  "NotificationDismissed this st = (this, emit (Delegate Sig_dismissed) st)"

text \<open>
  Modelled from the spec: \<open>Notification::NotificationClicked()\<close>, of the base class
  that is not among the sources: the transition to Clicked, which signals the delegate
  once with "clicked".
\<close>

definition NotificationClicked ::
  "LibnotifyNotification \<Rightarrow> process \<Rightarrow> LibnotifyNotification \<times> process" where
  "NotificationClicked this st = (this, emit (Delegate Sig_clicked) st)"

text \<open>The constructor: no native handle yet.\<close>

definition LibnotifyNotification_new :: LibnotifyNotification where
  "LibnotifyNotification_new = \<lparr>destroyed = False, notification = None\<rparr>"

text \<open>
  The destructor: both calls take the member \<open>notification_\<close> (the field
  \<open>notification\<close> here) as it is.
\<close>

definition LibnotifyNotification_delete :: "LibnotifyNotification \<Rightarrow> process \<Rightarrow> process" where
  "LibnotifyNotification_delete this st =
     emit (Call_g_object_unref (notification this))
       (emit (Call_g_signal_handlers_disconnect_by_data (notification this)) st)"

text \<open>
  \<open>Show\<close>. The title and the body are the UTF-8 bytes \<open>UTF16ToUTF8\<close> returns; the
  arguments \<open>icon_url\<close> and \<open>silent\<close> are not used by the source.
\<close>

definition Show ::
  "env \<Rightarrow> string \<Rightarrow> string \<Rightarrow> string \<Rightarrow> SkBitmap \<Rightarrow> LibnotifyNotification \<Rightarrow> process \<Rightarrow>
     LibnotifyNotification \<times> process" where
  "Show e title body tag icon this st =
     (let n0 = notify_notification_new (c_str title) (c_str body);
          n1 = g_signal_connect n0 ''closed'';
          (supports, st1) = NotifierSupportsActions e st;
          n2 = (if supports then notify_notification_add_action n1 ''default'' ''View'' else n1);
          n3 = (if \<not> drawsNothing icon
                then notify_notification_set_timeout
                       (notify_notification_set_image_from_pixbuf n2 (GdkPixbufFromSkBitmap icon))
                       NOTIFY_EXPIRES_DEFAULT
                else n2);
          (n4, st2) = (if tag \<noteq> []
                       then (case g_quark_from_string (c_str tag) st1 of
                               (q, st') \<Rightarrow> (g_object_set n3 ''id'' q, st'))
                       else (n3, st1));
          (has_append, st3) = HasCapability e ''append'' st2;
          (n5, st4) = (if has_append
                       then (notify_notification_set_hint_string n4 ''append'' ''true'', st3)
                       else (case HasCapability e ''x-canonical-append'' st3 of
                               (has_legacy, st') \<Rightarrow>
                                 (if has_legacy
                                  then notify_notification_set_hint_string n4
                                         ''x-canonical-append'' ''true''
                                  else n4, st')));
          this1 = this\<lparr>notification := Some n5\<rparr>;
          st5 = emit Call_notify_notification_show st4
      in case show_error e of
           Some error \<Rightarrow>
             NotificationFailed this1 (log_and_clear_error error ''notify_notification_show'' st5)
         | None \<Rightarrow> (this1, emit (Delegate Sig_displayed) st5))"

definition Dismiss ::
  "env \<Rightarrow> LibnotifyNotification \<Rightarrow> process \<Rightarrow> LibnotifyNotification \<times> process" where
  "Dismiss e this st =
     (let st1 = emit Call_notify_notification_close st
      in case close_error e of
           Some error \<Rightarrow>
             Destroy this (log_and_clear_error error ''notify_notification_close'' st1)
         | None \<Rightarrow> (this, st1))"

definition OnNotificationClosed ::
  "LibnotifyNotification \<Rightarrow> process \<Rightarrow> LibnotifyNotification \<times> process" where
  "OnNotificationClosed this st = NotificationDismissed this st"

definition OnNotificationView ::
  "LibnotifyNotification \<Rightarrow> process \<Rightarrow> LibnotifyNotification \<times> process" where
  "OnNotificationView this st = NotificationClicked this st"


section \<open>Runs of the process\<close>

text \<open>
  One step of the process: a call of one of the functions above, on any notification
  object and under any answers of the environment, or other code of the process
  interning a string. A state is reachable when a sequence of steps leads to it from
  the start of the process.
\<close>

inductive transition :: "process \<Rightarrow> process \<Rightarrow> bool" where
  t_HasCapability: "transition st (snd (HasCapability e name st))"
| t_NotifierSupportsActions: "transition st (snd (NotifierSupportsActions e st))"
| t_Initialize: "transition st (snd (Initialize e st))"
| t_Show: "transition st (snd (Show e title body tag icon this st))"
| t_Dismiss: "transition st (snd (Dismiss e this st))"
| t_OnNotificationClosed: "transition st (snd (OnNotificationClosed this st))"
| t_OnNotificationView: "transition st (snd (OnNotificationView this st))"
| t_delete: "transition st (LibnotifyNotification_delete this st)"
| t_quark: "transition st (snd (g_quark_from_string s st))"

definition reachable :: "process \<Rightarrow> bool" where
  "reachable st = rtranclp transition process_start st"

text \<open>The events a call has added to the trace, given the states before and after it.\<close>

definition new_events :: "process \<Rightarrow> process \<Rightarrow> event list" where
  "new_events st st1 = drop (length (trace st)) (trace st1)"

text \<open>The library names of the \<open>Load\<close> calls among some events, in order.\<close>

fun Load_calls :: "event list \<Rightarrow> string list" where
  "Load_calls [] = []"
| "Load_calls (Call_Load name # evs) = name # Load_calls evs"
| "Load_calls (ev # evs) = Load_calls evs"

text \<open>
  GLib's preconditions: \<open>g_signal_handlers_disconnect_by_data\<close> and
  \<open>g_object_unref\<close> require an object instance; on the null pointer each fails its
  \<open>g_return_if_fail\<close> check, which GLib reports as a critical error of the caller.
\<close>

fun invalid_call :: "event \<Rightarrow> bool" where
  "invalid_call (Call_g_signal_handlers_disconnect_by_data None) = True"
| "invalid_call (Call_g_object_unref None) = True"
| "invalid_call ev = False"

text \<open>
  The action-support predicate in the words of the spec: false when the override flag
  is set, otherwise \<open>HasCapability("actions")\<close>, computed on every call.
\<close>

definition NotifierSupportsActions_recompute :: "env \<Rightarrow> process \<Rightarrow> bool \<times> process" where
  "NotifierSupportsActions_recompute e st =
     (if getenv e ''ELECTRON_USE_UBUNTU_NOTIFIER'' \<noteq> None then (False, st)
      else HasCapability e ''actions'' st)"

text \<open>
  A sequence of calls of a predicate \<open>f\<close>, one per environment of the list: the
  results in order and the state at the end.
\<close>

fun calls ::
  "(env \<Rightarrow> process \<Rightarrow> bool \<times> process) \<Rightarrow> env list \<Rightarrow> process \<Rightarrow> bool list \<times> process" where
  "calls f [] st = ([], st)"
| "calls f (e # es) st =
     (case f e st of
        (r, st1) \<Rightarrow> (case calls f es st1 of (rs, st2) \<Rightarrow> (r # rs, st2)))"

text \<open>How often a call has sent the signal \<open>s\<close> to the delegate.\<close>

definition emitted :: "process \<Rightarrow> process \<Rightarrow> signal \<Rightarrow> nat" where
  "emitted st st1 s = count_list (new_events st st1) (Delegate s)"

text \<open>
  The capability query \<open>NotifierSupportsActions\<close> performs: none when the override is
  set or the cached result is taken, one otherwise.
\<close>

definition actions_query :: "env \<Rightarrow> process \<Rightarrow> event list" where
  "actions_query e st =
     (if getenv e ''ELECTRON_USE_UBUNTU_NOTIFIER'' \<noteq> None \<or> notify_has_result st then []
      else [Call_notify_get_server_caps])"

text \<open>
  The state without the value of the static \<open>notify_result\<close>, which no code reads
  while \<open>notify_has_result\<close> is false.
\<close>

definition forget_result :: "process \<Rightarrow> process" where
  "forget_result st = st\<lparr>notify_result := False\<rparr>"

text \<open>The identity and the hints on the native handle of a notification object.\<close>

definition handle_id :: "LibnotifyNotification \<Rightarrow> nat option" where
  "handle_id this = (case notification this of None \<Rightarrow> None | Some n \<Rightarrow> properties n ''id'')"

definition handle_hints :: "LibnotifyNotification \<Rightarrow> string \<rightharpoonup> string" where
  "handle_hints this = (case notification this of None \<Rightarrow> Map.empty | Some n \<Rightarrow> hints n)"

text \<open>
  What \<open>g_quark_from_string\<close> returns on a table, and the table it leaves.
\<close>

definition quark_of :: "string list \<Rightarrow> string \<Rightarrow> nat" where
  "quark_of tbl s = (case quark_lookup tbl s 1 of Some q \<Rightarrow> q | None \<Rightarrow> Suc (length tbl))"

definition intern :: "string list \<Rightarrow> string \<Rightarrow> string list" where
  "intern tbl s = (if s \<in> set tbl then tbl else tbl @ [s])"

text \<open>
  Values for the examples: a service that advertises \<open>actions\<close> and
  \<open>x-canonical-append\<close>, with no override in the environment, where the second
  library name binds; a 64 by 64 icon; a native error; a notification that holds a
  handle.
\<close>

definition example_env :: env where
  "example_env =
     \<lparr>getenv = Map.empty, server_caps = [''actions'', ''x-canonical-append''],
      Load_reply = (\<lambda>name. name = ''libnotify.so.1''),
      notify_is_initted_reply = False, notify_init_reply = True,
      GetApplicationName = ''Electron'', show_error = None, close_error = None\<rparr>"

definition example_icon :: SkBitmap where
  "example_icon = \<lparr>width = 64, height = 64, hasPixels = True\<rparr>"

definition example_error :: GError where
  "example_error = GError 1 2 ''no service''"

definition example_shown :: LibnotifyNotification where
  "example_shown =
     \<lparr>destroyed = False,
      notification = Some (notify_notification_new ''Build complete'' ''3 tests failed'')\<rparr>"


section \<open>Facts about the operations\<close>

lemma g_strcmp0_eq: "(g_strcmp0 a b = 0) = (a = b)"
  by (induction a b rule: g_strcmp0.induct) auto

lemma g_list_find_custom_strcmp:
  "(g_list_find_custom xs d g_strcmp0 = None) = (d \<notin> set xs)"
  by (induction xs) (auto simp: g_strcmp0_eq)

lemma c_str_no_NUL: "NUL \<notin> set s \<Longrightarrow> c_str s = s"
  by (auto simp add: c_str_def takeWhile_eq_all_conv)

lemma c_str_literals:
  "c_str ''actions'' = ''actions''"
  "c_str ''append'' = ''append''"
  "c_str ''x-canonical-append'' = ''x-canonical-append''"
  by (simp_all add: c_str_def)

lemma HasCapability_eq:
  "HasCapability e name st =
     (c_str name \<in> set (server_caps e), emit Call_notify_get_server_caps st)"
  by (simp add: HasCapability_def notify_get_server_caps_def g_list_find_custom_strcmp)

lemma NotifierSupportsActions_eq:
  "NotifierSupportsActions e st =
     (if getenv e ''ELECTRON_USE_UBUNTU_NOTIFIER'' \<noteq> None then (False, st)
      else if notify_has_result st then (notify_result st, st)
      else (''actions'' \<in> set (server_caps e),
            (emit Call_notify_get_server_caps st)
              \<lparr>notify_result := ''actions'' \<in> set (server_caps e)\<rparr>))"
  by (simp add: NotifierSupportsActions_def HasCapability_eq c_str_literals)

lemma emit_simps [simp]:
  "trace (emit ev st) = trace st @ [ev]"
  "quarks (emit ev st) = quarks st"
  "notify_has_result (emit ev st) = notify_has_result st"
  "notify_result (emit ev st) = notify_result st"
  "loaded (emit ev st) = loaded st"
  by (simp_all add: emit_def)

lemma new_events_append [simp]: "trace st1 = trace st @ evs \<Longrightarrow> new_events st st1 = evs"
  by (simp add: new_events_def)

lemma NotifierSupportsActions_trace:
  "trace (snd (NotifierSupportsActions e st)) = trace st @ actions_query e st"
  by (simp add: NotifierSupportsActions_eq actions_query_def)

lemma NotifierSupportsActions_frame:
  "notify_has_result (snd (NotifierSupportsActions e st)) = notify_has_result st"
  "quarks (snd (NotifierSupportsActions e st)) = quarks st"
  by (simp_all add: NotifierSupportsActions_eq)

lemma g_quark_from_string_frame:
  "trace (snd (g_quark_from_string s st)) = trace st"
  "notify_has_result (snd (g_quark_from_string s st)) = notify_has_result st"
  by (simp_all add: g_quark_from_string_def split: option.split)

lemma Show_trace:
  "trace (snd (Show e title body tag icon this st)) =
     trace st @ actions_query e st @
     (if ''append'' \<in> set (server_caps e) then [Call_notify_get_server_caps]
      else [Call_notify_get_server_caps, Call_notify_get_server_caps]) @
     [Call_notify_notification_show] @
     (case show_error e of
        None \<Rightarrow> [Delegate Sig_displayed]
      | Some err \<Rightarrow> [LOG_ERROR ''notify_notification_show'' err, Delegate Sig_failed])"
  by (simp add: Show_def Let_def HasCapability_eq c_str_literals NotificationFailed_def
      log_and_clear_error_def NotifierSupportsActions_trace g_quark_from_string_frame
      split_beta split: option.split)

lemma HasCapability_frame:
  "trace (snd (HasCapability e name st)) = trace st @ [Call_notify_get_server_caps]"
  "notify_has_result (snd (HasCapability e name st)) = notify_has_result st"
  "quarks (snd (HasCapability e name st)) = quarks st"
  by (simp_all add: HasCapability_eq)

lemma Load_eq:
  "Load e name st =
     (Load_reply e name,
      if Load_reply e name then (emit (Call_Load name) st)\<lparr>loaded := Some name\<rparr>
      else emit (Call_Load name) st)"
  by (simp add: Load_def)

lemma Initialize_trace:
  "trace (snd (Initialize e st)) = trace st @
     (if Load_reply e ''libnotify.so.4'' then [Call_Load ''libnotify.so.4'']
      else if Load_reply e ''libnotify.so.1''
        then [Call_Load ''libnotify.so.4'', Call_Load ''libnotify.so.1'']
      else [Call_Load ''libnotify.so.4'', Call_Load ''libnotify.so.1'',
            Call_Load ''libnotify.so'']) @
     (if \<not> Load_reply e ''libnotify.so.4'' \<and> \<not> Load_reply e ''libnotify.so.1'' \<and>
         \<not> Load_reply e ''libnotify.so'' then []
      else if notify_is_initted_reply e then [Call_notify_is_initted]
      else [Call_notify_is_initted, Call_notify_init (c_str (GetApplicationName e))])"
  by (simp add: Initialize_def and_also_def negate_def Load_eq notify_is_initted_def
      notify_init_def)

lemma Initialize_result:
  "fst (Initialize e st) =
     ((Load_reply e ''libnotify.so.4'' \<or> Load_reply e ''libnotify.so.1'' \<or>
       Load_reply e ''libnotify.so'') \<and>
      (notify_is_initted_reply e \<or> notify_init_reply e))"
  by (simp add: Initialize_def and_also_def negate_def Load_eq notify_is_initted_def
      notify_init_def)

lemma Initialize_frame:
  "notify_has_result (snd (Initialize e st)) = notify_has_result st"
  "quarks (snd (Initialize e st)) = quarks st"
  by (simp_all add: Initialize_def and_also_def negate_def Load_eq notify_is_initted_def
      notify_init_def)

lemma Show_frame:
  "notify_has_result (snd (Show e title body tag icon this st)) = notify_has_result st"
  by (simp add: Show_def Let_def HasCapability_eq NotificationFailed_def
      log_and_clear_error_def NotifierSupportsActions_frame g_quark_from_string_frame
      split_beta split: option.split)

lemma Dismiss_eq:
  "Dismiss e this st =
     (case close_error e of
        None \<Rightarrow> (this, emit Call_notify_notification_close st)
      | Some err \<Rightarrow>
          (this\<lparr>destroyed := True\<rparr>,
           emit (LOG_ERROR ''notify_notification_close'' err)
             (emit Call_notify_notification_close st)))"
  by (simp add: Dismiss_def Destroy_def log_and_clear_error_def split: option.split)

lemma callbacks_eq:
  "OnNotificationClosed this st = (this, emit (Delegate Sig_dismissed) st)"
  "OnNotificationView this st = (this, emit (Delegate Sig_clicked) st)"
  by (simp_all add: OnNotificationClosed_def OnNotificationView_def NotificationDismissed_def
      NotificationClicked_def)

lemma delete_eq:
  "LibnotifyNotification_delete this st =
     emit (Call_g_object_unref (notification this))
       (emit (Call_g_signal_handlers_disconnect_by_data (notification this)) st)"
  by (simp add: LibnotifyNotification_delete_def)

lemma transition_has_result:
  "transition st st1 \<Longrightarrow> notify_has_result st1 = notify_has_result st"
  by (induction rule: transition.induct)
    (simp_all add: HasCapability_frame NotifierSupportsActions_frame Initialize_frame
      Show_frame Dismiss_eq callbacks_eq delete_eq g_quark_from_string_frame
      split: option.split)

lemma steps_has_result:
  "rtranclp transition st st1 \<Longrightarrow> notify_has_result st1 = notify_has_result st"
  by (induction rule: rtranclp_induct) (simp_all add: transition_has_result)

lemma reachable_no_result: "reachable st \<Longrightarrow> \<not> notify_has_result st"
  using steps_has_result [of process_start st] by (simp add: reachable_def process_start_def)

lemma reachable_start: "reachable process_start"
  by (simp add: reachable_def)

lemma Show_new_events:
  "new_events st (snd (Show e title body tag icon this st)) =
     actions_query e st @
     (if ''append'' \<in> set (server_caps e) then [Call_notify_get_server_caps]
      else [Call_notify_get_server_caps, Call_notify_get_server_caps]) @
     [Call_notify_notification_show] @
     (case show_error e of
        None \<Rightarrow> [Delegate Sig_displayed]
      | Some err \<Rightarrow> [LOG_ERROR ''notify_notification_show'' err, Delegate Sig_failed])"
  by (rule new_events_append) (rule Show_trace)

lemma count_actions_query: "count_list (actions_query e st) (Delegate s) = 0"
  by (simp add: actions_query_def)

lemma forget_result_simps:
  "forget_result (emit ev st) = emit ev (forget_result st)"
  "forget_result (st\<lparr>notify_result := r\<rparr>) = forget_result st"
  "notify_has_result (forget_result st) = notify_has_result st"
  "trace (forget_result st) = trace st"
  by (simp_all add: forget_result_def emit_def)

lemma recompute_eq:
  "NotifierSupportsActions_recompute e st =
     (if getenv e ''ELECTRON_USE_UBUNTU_NOTIFIER'' \<noteq> None then (False, st)
      else (''actions'' \<in> set (server_caps e), emit Call_notify_get_server_caps st))"
  by (simp add: NotifierSupportsActions_recompute_def HasCapability_eq c_str_literals)

lemma calls_simulation:
  "\<not> notify_has_result st \<Longrightarrow> forget_result st = forget_result st' \<Longrightarrow>
   fst (calls NotifierSupportsActions es st) =
     fst (calls NotifierSupportsActions_recompute es st') \<and>
   forget_result (snd (calls NotifierSupportsActions es st)) =
     forget_result (snd (calls NotifierSupportsActions_recompute es st')) \<and>
   \<not> notify_has_result (snd (calls NotifierSupportsActions es st))"
proof (induction es arbitrary: st st')
  case Nil
  then show ?case by simp
next
  case (Cons e es)
  let ?st1 = "snd (NotifierSupportsActions e st)"
  let ?st1' = "snd (NotifierSupportsActions_recompute e st')"
  have r: "fst (NotifierSupportsActions e st) = fst (NotifierSupportsActions_recompute e st')"
    using Cons.prems(1) by (simp add: NotifierSupportsActions_eq recompute_eq)
  have h: "\<not> notify_has_result ?st1"
    using Cons.prems(1) by (simp add: NotifierSupportsActions_frame)
  have f: "forget_result ?st1 = forget_result ?st1'"
    using Cons.prems by (simp add: NotifierSupportsActions_eq recompute_eq forget_result_simps)
  from Cons.IH [OF h f] r show ?case
    by (simp add: split_beta)
qed

lemma calls_unset:
  "\<not> notify_has_result st \<Longrightarrow>
   \<forall>e\<in>set es. getenv e ''ELECTRON_USE_UBUNTU_NOTIFIER'' = None \<Longrightarrow>
   fst (calls NotifierSupportsActions es st) = map (\<lambda>e. ''actions'' \<in> set (server_caps e)) es \<and>
   trace (snd (calls NotifierSupportsActions es st)) =
     trace st @ replicate (length es) Call_notify_get_server_caps"
proof (induction es arbitrary: st)
  case Nil
  then show ?case by simp
next
  case (Cons e es)
  let ?st1 = "snd (NotifierSupportsActions e st)"
  have h: "\<not> notify_has_result ?st1"
    using Cons.prems(1) by (simp add: NotifierSupportsActions_frame)
  have u: "\<forall>e\<in>set es. getenv e ''ELECTRON_USE_UBUNTU_NOTIFIER'' = None"
    using Cons.prems(2) by simp
  have e: "getenv e ''ELECTRON_USE_UBUNTU_NOTIFIER'' = None"
    using Cons.prems(2) by simp
  have t: "trace ?st1 = trace st @ [Call_notify_get_server_caps]"
    using Cons.prems(1) e by (simp add: NotifierSupportsActions_eq)
  have r: "fst (NotifierSupportsActions e st) = (''actions'' \<in> set (server_caps e))"
    using Cons.prems(1) e by (simp add: NotifierSupportsActions_eq)
  from Cons.IH [OF h u] t r show ?case
    by (simp add: split_beta)
qed

lemma quark_lookup_None: "(quark_lookup xs s q = None) = (s \<notin> set xs)"
  by (induction xs arbitrary: q) auto

lemma quark_lookup_Some:
  "quark_lookup xs s q = Some r \<Longrightarrow> q \<le> r \<and> r - q < length xs \<and> xs ! (r - q) = s"
proof (induction xs arbitrary: q)
  case Nil
  then show ?case by simp
next
  case (Cons x xs)
  show ?case
  proof (cases "x = s")
    case True
    with Cons.prems show ?thesis by simp
  next
    case False
    with Cons.prems have "quark_lookup xs s (Suc q) = Some r" by simp
    from Cons.IH [OF this] have "Suc q \<le> r" "r - Suc q < length xs" "xs ! (r - Suc q) = s"
      by simp_all
    moreover from \<open>Suc q \<le> r\<close> have "r - q = Suc (r - Suc q)" by simp
    ultimately show ?thesis by simp
  qed
qed

lemma quark_lookup_append:
  "quark_lookup xs s q = Some r \<Longrightarrow> quark_lookup (xs @ ys) s q = Some r"
  by (induction xs arbitrary: q) (auto split: if_splits)

lemma quark_lookup_new:
  "s \<notin> set xs \<Longrightarrow> quark_lookup (xs @ [s]) s q = Some (q + length xs)"
  by (induction xs arbitrary: q) auto

lemma g_quark_from_string_eq:
  "g_quark_from_string s st = (quark_of (quarks st) s, st\<lparr>quarks := intern (quarks st) s\<rparr>)"
proof (cases "quark_lookup (quarks st) s 1")
  case None
  moreover from None have "s \<notin> set (quarks st)" by (simp add: quark_lookup_None)
  ultimately show ?thesis by (simp add: g_quark_from_string_def quark_of_def intern_def)
next
  case (Some q)
  moreover from Some have "s \<in> set (quarks st)"
    using quark_lookup_None [of "quarks st" s 1] by auto
  ultimately show ?thesis by (simp add: g_quark_from_string_def quark_of_def intern_def)
qed

lemma quark_lookup_intern: "quark_lookup (intern tbl s) s 1 = Some (quark_of tbl s)"
proof (cases "s \<in> set tbl")
  case True
  then obtain q where "quark_lookup tbl s 1 = Some q"
    using quark_lookup_None [of tbl s 1] by auto
  with True show ?thesis by (simp add: intern_def quark_of_def)
next
  case False
  then have "quark_lookup tbl s 1 = None" by (simp add: quark_lookup_None)
  with False show ?thesis by (simp add: intern_def quark_of_def quark_lookup_new)
qed

lemma quark_of_later:
  assumes a: "quark_lookup t a 1 = Some qa"
  shows "(quark_of (t @ ys) b = qa) = (a = b)"
proof
  assume "a = b"
  with quark_lookup_append [OF a, of ys] show "quark_of (t @ ys) b = qa"
    by (simp add: quark_of_def)
next
  assume q: "quark_of (t @ ys) b = qa"
  from quark_lookup_Some [OF a] have qa: "1 \<le> qa" "qa - 1 < length t" "t ! (qa - 1) = a"
    by simp_all
  show "a = b"
  proof (cases "quark_lookup (t @ ys) b 1")
    case None
    with q have "qa = Suc (length (t @ ys))" by (simp add: quark_of_def)
    with qa show ?thesis by simp
  next
    case (Some r)
    with q have "r = qa" by (simp add: quark_of_def)
    with quark_lookup_Some [OF Some] have "(t @ ys) ! (qa - 1) = b" by simp
    with qa show ?thesis by (simp add: nth_append)
  qed
qed

lemma Show_quarks:
  "quarks (snd (Show e title body tag icon this st)) =
     (if tag = [] then quarks st else intern (quarks st) (c_str tag))"
  by (simp add: Show_def Let_def HasCapability_eq NotificationFailed_def
      log_and_clear_error_def NotifierSupportsActions_frame g_quark_from_string_eq
      split_beta split: option.split)

lemma Show_notification:
  "\<exists>n. notification (fst (Show e title body tag icon this st)) = Some n \<and>
     properties n ''id'' = (if tag = [] then None else Some (quark_of (quarks st) (c_str tag))) \<and>
     hints n =
       (if ''append'' \<in> set (server_caps e) then [''append'' \<mapsto> ''true'']
        else if ''x-canonical-append'' \<in> set (server_caps e)
          then [''x-canonical-append'' \<mapsto> ''true'']
        else Map.empty)"
  by (simp add: Show_def Let_def HasCapability_eq c_str_literals NotificationFailed_def
      log_and_clear_error_def NotifierSupportsActions_frame g_quark_from_string_eq
      notify_notification_new_def g_signal_connect_def
      notify_notification_add_action_def notify_notification_set_image_from_pixbuf_def
      notify_notification_set_timeout_def g_object_set_def
      notify_notification_set_hint_string_def
      split_beta split: option.split)

lemma Show_handle_id:
  "handle_id (fst (Show e title body tag icon this st)) =
     (if tag = [] then None else Some (quark_of (quarks st) (c_str tag)))"
  using Show_notification [of e title body tag icon this st]
  by (auto simp add: handle_id_def)

lemma Show_handle_hints:
  "handle_hints (fst (Show e title body tag icon this st)) =
       (if ''append'' \<in> set (server_caps e) then [''append'' \<mapsto> ''true'']
        else if ''x-canonical-append'' \<in> set (server_caps e)
          then [''x-canonical-append'' \<mapsto> ''true'']
        else Map.empty)"
  using Show_notification [of e title body tag icon this st]
  by (auto simp add: handle_hints_def)

lemma intern_grows: "\<exists>ys. intern tbl s = tbl @ ys"
  by (simp add: intern_def)

lemma transition_quarks: "transition st st1 \<Longrightarrow> \<exists>ys. quarks st1 = quarks st @ ys"
  by (induction rule: transition.induct)
    (simp_all add: HasCapability_frame NotifierSupportsActions_frame Initialize_frame
      Show_quarks Dismiss_eq callbacks_eq delete_eq g_quark_from_string_eq intern_grows
      split: option.split)

lemma steps_quarks: "rtranclp transition st st1 \<Longrightarrow> \<exists>ys. quarks st1 = quarks st @ ys"
proof (induction rule: rtranclp_induct)
  case base
  then show ?case by simp
next
  case (step y z)
  from step.IH obtain ys where "quarks y = quarks st @ ys" ..
  moreover from transition_quarks [OF step.hyps(2)] obtain zs where "quarks z = quarks y @ zs" ..
  ultimately show ?case by simp
qed


section \<open>Properties\<close>

subsection \<open>Signals of \<open>Show\<close>\<close>

text \<open>
  C1. Every call of \<open>Show\<close> sends exactly one of the signals "displayed" and "failed":
  when \<open>notify_notification_show\<close> reports no error, one "displayed" and no "failed";
  when it reports an error, one "failed" and no "displayed". The "failed" signal is the
  one the base class sends in \<open>NotificationFailed\<close>.
\<close>

theorem Show_exactly_one_signal:
  "(show_error e = None \<longrightarrow>
      emitted st (snd (Show e title body tag icon this st)) Sig_displayed = 1 \<and>
      emitted st (snd (Show e title body tag icon this st)) Sig_failed = 0) \<and>
   (show_error e \<noteq> None \<longrightarrow>
      emitted st (snd (Show e title body tag icon this st)) Sig_failed = 1 \<and>
      emitted st (snd (Show e title body tag icon this st)) Sig_displayed = 0)"
  by (auto simp add: emitted_def Show_new_events count_actions_query)

theorem Show_exactly_one_signal_witness:
  "emitted process_start
     (snd (Show example_env ''Build complete'' ''3 tests failed'' ''ci-status'' example_icon
        LibnotifyNotification_new process_start)) Sig_displayed = 1 \<and>
   emitted process_start
     (snd (Show example_env ''Build complete'' ''3 tests failed'' ''ci-status'' example_icon
        LibnotifyNotification_new process_start)) Sig_failed = 0 \<and>
   emitted process_start
     (snd (Show (example_env\<lparr>show_error := Some example_error\<rparr>) ''Build complete''
        ''3 tests failed'' ''ci-status'' example_icon LibnotifyNotification_new process_start))
     Sig_failed = 1 \<and>
   emitted process_start
     (snd (Show (example_env\<lparr>show_error := Some example_error\<rparr>) ''Build complete''
        ''3 tests failed'' ''ci-status'' example_icon LibnotifyNotification_new process_start))
     Sig_displayed = 0"
  using Show_exactly_one_signal [of example_env process_start "''Build complete''"
      "''3 tests failed''" "''ci-status''" example_icon LibnotifyNotification_new]
    Show_exactly_one_signal [of "example_env\<lparr>show_error := Some example_error\<rparr>"
      process_start "''Build complete''" "''3 tests failed''" "''ci-status''" example_icon
      LibnotifyNotification_new]
  by (simp add: example_env_def)


subsection \<open>Binding the library\<close>

text \<open>
  C2. \<open>Initialize\<close> tries the names \<open>libnotify.so.4\<close>, \<open>libnotify.so.1\<close>,
  \<open>libnotify.so\<close> in this order and stops at the first that binds: the \<open>Load\<close> calls
  it makes are the names up to and including the first one that binds (all three when
  none binds). It returns false exactly when no name binds, or one binds and the
  service says it is not initialized and \<open>notify_init\<close> fails.
\<close>

theorem Initialize_first_bind:
  "Load_calls (new_events st (snd (Initialize e st))) =
     (if Load_reply e ''libnotify.so.4'' then [''libnotify.so.4'']
      else if Load_reply e ''libnotify.so.1'' then [''libnotify.so.4'', ''libnotify.so.1'']
      else [''libnotify.so.4'', ''libnotify.so.1'', ''libnotify.so'']) \<and>
   (fst (Initialize e st) = False) =
     ((\<not> Load_reply e ''libnotify.so.4'' \<and> \<not> Load_reply e ''libnotify.so.1'' \<and>
       \<not> Load_reply e ''libnotify.so'') \<or>
      ((Load_reply e ''libnotify.so.4'' \<or> Load_reply e ''libnotify.so.1'' \<or>
        Load_reply e ''libnotify.so'') \<and>
       \<not> notify_is_initted_reply e \<and> \<not> notify_init_reply e))"
proof
  have "new_events st (snd (Initialize e st)) =
     (if Load_reply e ''libnotify.so.4'' then [Call_Load ''libnotify.so.4'']
      else if Load_reply e ''libnotify.so.1''
        then [Call_Load ''libnotify.so.4'', Call_Load ''libnotify.so.1'']
      else [Call_Load ''libnotify.so.4'', Call_Load ''libnotify.so.1'',
            Call_Load ''libnotify.so'']) @
     (if \<not> Load_reply e ''libnotify.so.4'' \<and> \<not> Load_reply e ''libnotify.so.1'' \<and>
         \<not> Load_reply e ''libnotify.so'' then []
      else if notify_is_initted_reply e then [Call_notify_is_initted]
      else [Call_notify_is_initted, Call_notify_init (c_str (GetApplicationName e))])"
    by (rule new_events_append) (rule Initialize_trace)
  then show "Load_calls (new_events st (snd (Initialize e st))) =
     (if Load_reply e ''libnotify.so.4'' then [''libnotify.so.4'']
      else if Load_reply e ''libnotify.so.1'' then [''libnotify.so.4'', ''libnotify.so.1'']
      else [''libnotify.so.4'', ''libnotify.so.1'', ''libnotify.so''])"
    by simp
  show "(fst (Initialize e st) = False) =
     ((\<not> Load_reply e ''libnotify.so.4'' \<and> \<not> Load_reply e ''libnotify.so.1'' \<and>
       \<not> Load_reply e ''libnotify.so'') \<or>
      ((Load_reply e ''libnotify.so.4'' \<or> Load_reply e ''libnotify.so.1'' \<or>
        Load_reply e ''libnotify.so'') \<and>
       \<not> notify_is_initted_reply e \<and> \<not> notify_init_reply e))"
    by (auto simp add: Initialize_result)
qed

theorem Initialize_first_bind_witness:
  "Load_calls (new_events process_start (snd (Initialize example_env process_start))) =
     [''libnotify.so.4'', ''libnotify.so.1''] \<and>
   fst (Initialize example_env process_start) \<and>
   Load_calls (new_events process_start
     (snd (Initialize (example_env\<lparr>Load_reply := (\<lambda>name. False)\<rparr>) process_start))) =
     [''libnotify.so.4'', ''libnotify.so.1'', ''libnotify.so''] \<and>
   \<not> fst (Initialize (example_env\<lparr>Load_reply := (\<lambda>name. False)\<rparr>) process_start) \<and>
   \<not> fst (Initialize (example_env\<lparr>notify_init_reply := False\<rparr>) process_start)"
  using Initialize_first_bind [of process_start example_env]
    Initialize_first_bind [of process_start "example_env\<lparr>Load_reply := (\<lambda>name. False)\<rparr>"]
    Initialize_first_bind [of process_start "example_env\<lparr>notify_init_reply := False\<rparr>"]
  by (simp add: example_env_def)


subsection \<open>Capability negotiation\<close>

text \<open>
  C3. In every reachable state of the process and for every capability list of the
  service, \<open>NotifierSupportsActions\<close> returns false when the variable
  \<open>ELECTRON_USE_UBUNTU_NOTIFIER\<close> is set, also when the service advertises
  \<open>actions\<close>, and the result of \<open>HasCapability("actions")\<close> otherwise.
\<close>

theorem NotifierSupportsActions_override:
  "reachable st \<Longrightarrow>
   fst (NotifierSupportsActions e st) =
     (if getenv e ''ELECTRON_USE_UBUNTU_NOTIFIER'' \<noteq> None then False
      else fst (HasCapability e ''actions'' st))"
  by (simp add: NotifierSupportsActions_eq HasCapability_eq c_str_literals
      reachable_no_result)

theorem NotifierSupportsActions_override_witness:
  "''actions'' \<in> set (server_caps example_env) \<and>
   \<not> fst (NotifierSupportsActions
       (example_env\<lparr>getenv := [''ELECTRON_USE_UBUNTU_NOTIFIER'' \<mapsto> ''1'']\<rparr>) process_start) \<and>
   fst (NotifierSupportsActions example_env process_start) \<and>
   \<not> fst (NotifierSupportsActions (example_env\<lparr>server_caps := [''body'']\<rparr>) process_start)"
  using NotifierSupportsActions_override [OF reachable_start,
      of "example_env\<lparr>getenv := [''ELECTRON_USE_UBUNTU_NOTIFIER'' \<mapsto> ''1'']\<rparr>"]
    NotifierSupportsActions_override [OF reachable_start, of example_env]
    NotifierSupportsActions_override [OF reachable_start,
      of "example_env\<lparr>server_caps := [''body'']\<rparr>"]
  by (simp add: example_env_def HasCapability_eq c_str_literals)

text \<open>
  C4. \<open>HasCapability(name)\<close> is true exactly when the name, as the C string the
  comparison reads, is a member of the capability list the service returns; the
  comparison is bytewise, so it is exact and case-sensitive. A capability name is a C
  string (the source passes string literals), that is, it has no NUL byte, and then
  the C string is the name itself. On the empty list the result is false.
\<close>

theorem HasCapability_exact_member:
  "fst (HasCapability e name st) = (c_str name \<in> set (server_caps e)) \<and>
   (NUL \<notin> set name \<longrightarrow> fst (HasCapability e name st) = (name \<in> set (server_caps e))) \<and>
   (server_caps e = [] \<longrightarrow> fst (HasCapability e name st) = False)"
  by (simp add: HasCapability_eq c_str_no_NUL)

theorem HasCapability_exact_member_witness:
  "fst (HasCapability example_env ''actions'' process_start) \<and>
   \<not> fst (HasCapability example_env ''Actions'' process_start) \<and>
   \<not> fst (HasCapability example_env ''action'' process_start) \<and>
   \<not> fst (HasCapability (example_env\<lparr>server_caps := []\<rparr>) ''actions'' process_start)"
  using HasCapability_exact_member [of example_env "''actions''" process_start]
    HasCapability_exact_member [of example_env "''Actions''" process_start]
    HasCapability_exact_member [of example_env "''action''" process_start]
    HasCapability_exact_member [of "example_env\<lparr>server_caps := []\<rparr>" "''actions''" process_start]
  by (simp add: example_env_def c_str_def)

text \<open>
  C5. The static \<open>notify_has_result\<close> is never set: it is false in every reachable
  state and after every sequence of calls of \<open>NotifierSupportsActions\<close>. So the
  function agrees, over every such sequence, with the definition that always
  recomputes: the results are the same and so are the final states, up to the value
  stored in \<open>notify_result\<close>. With the override unset in every call, the results are
  those of \<open>HasCapability("actions")\<close> under the capabilities of each call, and each
  call queries the service once.
\<close>

theorem NotifierSupportsActions_never_cached:
  "reachable st \<Longrightarrow>
   \<not> notify_has_result (snd (calls NotifierSupportsActions es st)) \<and>
   fst (calls NotifierSupportsActions es st) =
     fst (calls NotifierSupportsActions_recompute es st) \<and>
   forget_result (snd (calls NotifierSupportsActions es st)) =
     forget_result (snd (calls NotifierSupportsActions_recompute es st)) \<and>
   ((\<forall>e\<in>set es. getenv e ''ELECTRON_USE_UBUNTU_NOTIFIER'' = None) \<longrightarrow>
      fst (calls NotifierSupportsActions es st) =
        map (\<lambda>e. fst (HasCapability e ''actions'' st)) es \<and>
      new_events st (snd (calls NotifierSupportsActions es st)) =
        replicate (length es) Call_notify_get_server_caps)"
proof -
  assume "reachable st"
  then have h: "\<not> notify_has_result st" by (rule reachable_no_result)
  from calls_simulation [OF h refl] calls_unset [OF h]
  show ?thesis
    by (auto simp add: HasCapability_eq c_str_literals)
qed

theorem NotifierSupportsActions_never_cached_witness:
  "fst (calls NotifierSupportsActions
     [example_env, example_env\<lparr>server_caps := []\<rparr>, example_env] process_start) =
     [True, False, True] \<and>
   fst (calls NotifierSupportsActions_recompute
     [example_env, example_env\<lparr>server_caps := []\<rparr>, example_env] process_start) =
     [True, False, True] \<and>
   new_events process_start (snd (calls NotifierSupportsActions
     [example_env, example_env\<lparr>server_caps := []\<rparr>, example_env] process_start)) =
     [Call_notify_get_server_caps, Call_notify_get_server_caps, Call_notify_get_server_caps]"
proof -
  let ?es = "[example_env, example_env\<lparr>server_caps := []\<rparr>, example_env]"
  note t = NotifierSupportsActions_never_cached [OF reachable_start, of ?es]
  have u: "\<forall>e\<in>set ?es. getenv e ''ELECTRON_USE_UBUNTU_NOTIFIER'' = None"
    by (simp add: example_env_def)
  from t u have r: "fst (calls NotifierSupportsActions ?es process_start) =
      map (\<lambda>e. fst (HasCapability e ''actions'' process_start)) ?es"
    and ev: "new_events process_start (snd (calls NotifierSupportsActions ?es process_start)) =
      replicate (length ?es) Call_notify_get_server_caps"
    and eq: "fst (calls NotifierSupportsActions ?es process_start) =
      fst (calls NotifierSupportsActions_recompute ?es process_start)"
    by blast+
  have m: "map (\<lambda>e. fst (HasCapability e ''actions'' process_start)) ?es = [True, False, True]"
    by (simp add: HasCapability_eq c_str_literals example_env_def)
  have n: "replicate (length ?es) Call_notify_get_server_caps =
      [Call_notify_get_server_caps, Call_notify_get_server_caps, Call_notify_get_server_caps]"
    by (simp add: numeral_3_eq_3)
  from r ev eq m n show ?thesis
    by (simp del: calls.simps)
qed

text \<open>
  C10. When the override variable is set, \<open>NotifierSupportsActions\<close> returns false and
  leaves the state as it was, from any state: it adds no event to the trace, so it
  makes no capability query, and two runs under any two environments that both set the
  variable give the same result and the same state, whatever the service advertises.
\<close>

theorem override_no_query:
  "getenv e1 ''ELECTRON_USE_UBUNTU_NOTIFIER'' \<noteq> None \<Longrightarrow>
   getenv e2 ''ELECTRON_USE_UBUNTU_NOTIFIER'' \<noteq> None \<Longrightarrow>
   NotifierSupportsActions e1 st = (False, st) \<and>
   NotifierSupportsActions e2 st = NotifierSupportsActions e1 st \<and>
   new_events st (snd (NotifierSupportsActions e1 st)) = []"
  by (simp add: NotifierSupportsActions_eq new_events_def)

theorem override_no_query_witness:
  "NotifierSupportsActions
     (example_env\<lparr>getenv := [''ELECTRON_USE_UBUNTU_NOTIFIER'' \<mapsto> ''1'']\<rparr>) process_start =
     (False, process_start) \<and>
   NotifierSupportsActions
     (example_env\<lparr>getenv := [''ELECTRON_USE_UBUNTU_NOTIFIER'' \<mapsto> ''yes''],
        server_caps := []\<rparr>) process_start =
   NotifierSupportsActions
     (example_env\<lparr>getenv := [''ELECTRON_USE_UBUNTU_NOTIFIER'' \<mapsto> ''1'']\<rparr>) process_start"
  using override_no_query
    [of "example_env\<lparr>getenv := [''ELECTRON_USE_UBUNTU_NOTIFIER'' \<mapsto> ''1'']\<rparr>"
        "example_env\<lparr>getenv := [''ELECTRON_USE_UBUNTU_NOTIFIER'' \<mapsto> ''yes''],
           server_caps := []\<rparr>" process_start]
  by simp


subsection \<open>Dismissal\<close>

text \<open>
  C6. \<open>Dismiss\<close> on a notification that holds a handle: when
  \<open>notify_notification_close\<close> reports an error, the object is destroyed at once and
  no "dismissed" signal is sent; when it reports none, \<open>Dismiss\<close> sends no signal and
  leaves the object as it is, and the closed callback, in whatever state it later
  runs, sends exactly one "dismissed" signal. The teardown and the "dismissed" signal
  are those of the base class.
\<close>

theorem Dismiss_signals:
  "notification this \<noteq> None \<Longrightarrow>
   (close_error e \<noteq> None \<longrightarrow>
      destroyed (fst (Dismiss e this st)) \<and>
      emitted st (snd (Dismiss e this st)) Sig_dismissed = 0) \<and>
   (close_error e = None \<longrightarrow>
      fst (Dismiss e this st) = this \<and>
      (\<forall>s. emitted st (snd (Dismiss e this st)) s = 0) \<and>
      emitted st2 (snd (OnNotificationClosed (fst (Dismiss e this st)) st2)) Sig_dismissed = 1)"
  by (auto simp add: Dismiss_eq callbacks_eq emitted_def new_events_def)

theorem Dismiss_signals_witness:
  "destroyed (fst (Dismiss (example_env\<lparr>close_error := Some example_error\<rparr>)
     example_shown process_start)) \<and>
   emitted process_start (snd (Dismiss (example_env\<lparr>close_error := Some example_error\<rparr>)
     example_shown process_start)) Sig_dismissed = 0 \<and>
   fst (Dismiss example_env example_shown process_start) = example_shown \<and>
   emitted process_start (snd (Dismiss example_env example_shown process_start))
     Sig_dismissed = 0 \<and>
   emitted (snd (Dismiss example_env example_shown process_start))
     (snd (OnNotificationClosed (fst (Dismiss example_env example_shown process_start))
        (snd (Dismiss example_env example_shown process_start)))) Sig_dismissed = 1"
proof -
  have a: "notification example_shown \<noteq> None"
    by (simp add: example_shown_def)
  have b: "close_error example_env = None"
    by (simp add: example_env_def)
  have c: "close_error (example_env\<lparr>close_error := Some example_error\<rparr>) \<noteq> None"
    by simp
  from Dismiss_signals [OF a, of "example_env\<lparr>close_error := Some example_error\<rparr>"
      process_start] c
    Dismiss_signals [OF a, of example_env process_start
      "snd (Dismiss example_env example_shown process_start)"] b
  show ?thesis by auto
qed


subsection \<open>Hints and identity\<close>

text \<open>
  C7. After every call of \<open>Show\<close> the hints on the handle are: \<open>append\<close> when the
  service advertises \<open>append\<close>; otherwise \<open>x-canonical-append\<close> when the service
  advertises that; otherwise none. The two hints are never both set, and the tag
  plays no part.
\<close>

theorem Show_append_hints:
  "handle_hints (fst (Show e title body tag icon this st)) =
     (if ''append'' \<in> set (server_caps e) then [''append'' \<mapsto> ''true'']
      else if ''x-canonical-append'' \<in> set (server_caps e)
        then [''x-canonical-append'' \<mapsto> ''true'']
      else Map.empty) \<and>
   \<not> (handle_hints (fst (Show e title body tag icon this st)) ''append'' \<noteq> None \<and>
      handle_hints (fst (Show e title body tag icon this st)) ''x-canonical-append'' \<noteq> None) \<and>
   handle_hints (fst (Show e title body tag icon this st)) =
     handle_hints (fst (Show e title body tag2 icon this st))"
  by (simp add: Show_handle_hints)

theorem Show_append_hints_witness:
  "handle_hints (fst (Show example_env ''Build complete'' ''3 tests failed'' ''ci-status''
     example_icon LibnotifyNotification_new process_start)) ''x-canonical-append'' =
     Some ''true'' \<and>
   handle_hints (fst (Show example_env ''Build complete'' ''3 tests failed'' ''ci-status''
     example_icon LibnotifyNotification_new process_start)) ''append'' = None \<and>
   handle_hints (fst (Show
     (example_env\<lparr>server_caps := [''x-canonical-append'', ''append'']\<rparr>) ''Build complete''
     ''3 tests failed'' [] example_icon LibnotifyNotification_new process_start)) =
     [''append'' \<mapsto> ''true'']"
  using Show_append_hints [of example_env "''Build complete''" "''3 tests failed''" "''ci-status''"
      example_icon LibnotifyNotification_new process_start]
    Show_append_hints [of "example_env\<lparr>server_caps := [''x-canonical-append'', ''append'']\<rparr>"
      "''Build complete''" "''3 tests failed''" "[]" example_icon LibnotifyNotification_new
      process_start]
  by (simp add: example_env_def)

text \<open>
  C8, as amended. \<open>Show\<close> interns the tag as a C string, that is, up to its first NUL
  byte. For a call of \<open>Show\<close> and any later call in the same run, both with non-empty
  tags: each assigns an identity to its handle, and the two identities are equal
  exactly when the tags agree up to their first NUL byte; for tags without a NUL byte,
  exactly when the tags are equal. An empty tag assigns no identity.
\<close>

theorem Show_tag_identity:
  assumes later: "rtranclp transition (snd (Show e title body tag icon this st)) st'"
  shows "(tag = [] \<longrightarrow> handle_id (fst (Show e title body tag icon this st)) = None) \<and>
    (tag \<noteq> [] \<and> tag' \<noteq> [] \<longrightarrow>
       handle_id (fst (Show e title body tag icon this st)) \<noteq> None \<and>
       handle_id (fst (Show e' title' body' tag' icon' this' st')) \<noteq> None \<and>
       (handle_id (fst (Show e title body tag icon this st)) =
        handle_id (fst (Show e' title' body' tag' icon' this' st'))) =
       (c_str tag = c_str tag')) \<and>
    (tag \<noteq> [] \<and> tag' \<noteq> [] \<and> NUL \<notin> set tag \<and> NUL \<notin> set tag' \<longrightarrow>
       (handle_id (fst (Show e title body tag icon this st)) =
        handle_id (fst (Show e' title' body' tag' icon' this' st'))) =
       (tag = tag'))"
proof -
  have main: "(quark_of (quarks st') (c_str tag') = quark_of (quarks st) (c_str tag)) =
      (c_str tag = c_str tag')" if "tag \<noteq> []"
  proof -
    from steps_quarks [OF later] that obtain ys
      where "quarks st' = intern (quarks st) (c_str tag) @ ys"
      by (auto simp add: Show_quarks)
    with quark_of_later [OF quark_lookup_intern, of "quarks st" "c_str tag" ys "c_str tag'"]
    show ?thesis by simp
  qed
  show ?thesis
    using main by (auto simp add: Show_handle_id c_str_no_NUL)
qed

theorem Show_tag_identity_witness:
  "handle_id (fst (Show example_env ''Build complete'' ''3 tests failed'' ''ci-status''
     example_icon LibnotifyNotification_new process_start)) =
   handle_id (fst (Show example_env ''Build failed'' ''again'' ''ci-status''
     example_icon LibnotifyNotification_new
     (snd (Show example_env ''Build complete'' ''3 tests failed'' ''ci-status''
        example_icon LibnotifyNotification_new process_start)))) \<and>
   handle_id (fst (Show example_env ''Build complete'' ''3 tests failed'' ''ci-status''
     example_icon LibnotifyNotification_new process_start)) \<noteq>
   handle_id (fst (Show example_env ''New mail'' ''from a friend'' ''mail''
     example_icon LibnotifyNotification_new
     (snd (Show example_env ''Build complete'' ''3 tests failed'' ''ci-status''
        example_icon LibnotifyNotification_new process_start)))) \<and>
   handle_id (fst (Show example_env ''Build complete'' ''3 tests failed'' []
     example_icon LibnotifyNotification_new process_start)) = None"
proof -
  let ?first = "Show example_env ''Build complete'' ''3 tests failed'' ''ci-status''
    example_icon LibnotifyNotification_new process_start"
  have later: "rtranclp transition (snd ?first) (snd ?first)"
    by simp
  have tags: "c_str ''ci-status'' \<noteq> c_str ''mail''"
    by (simp add: c_str_def)
  from Show_tag_identity [OF later, where tag' = "''ci-status''" and e' = example_env
      and title' = "''Build failed''" and body' = "''again''" and icon' = example_icon
      and this' = LibnotifyNotification_new]
    Show_tag_identity [OF later, where tag' = "''mail''" and e' = example_env
      and title' = "''New mail''" and body' = "''from a friend''" and icon' = example_icon
      and this' = LibnotifyNotification_new]
    Show_tag_identity [where tag = "[]" and e = example_env
      and title = "''Build complete''" and body = "''3 tests failed''"
      and icon = example_icon and this = LibnotifyNotification_new and st = process_start,
      OF rtranclp.rtrancl_refl]
    tags
  show ?thesis by simp
qed

text \<open>
  C8, as the claim states it, fails: the two distinct non-empty tags \<open>a\<close>, NUL, \<open>b\<close>
  and \<open>a\<close>, NUL, \<open>c\<close> are given the same identity, that of the string \<open>a\<close>.
\<close>

theorem Show_tag_identity_counterexample:
  "[CHR ''a'', NUL, CHR ''b''] \<noteq> [CHR ''a'', NUL, CHR ''c''] \<and>
   handle_id (fst (Show example_env ''Build complete'' ''3 tests failed''
     [CHR ''a'', NUL, CHR ''b''] example_icon LibnotifyNotification_new process_start)) =
     Some 1 \<and>
   handle_id (fst (Show example_env ''Build complete'' ''3 tests failed''
     [CHR ''a'', NUL, CHR ''c''] example_icon LibnotifyNotification_new
     (snd (Show example_env ''Build complete'' ''3 tests failed''
        [CHR ''a'', NUL, CHR ''b''] example_icon LibnotifyNotification_new process_start)))) =
     Some 1"
  by (simp add: Show_handle_id Show_quarks quark_of_def intern_def c_str_def
      process_start_def)


subsection \<open>Destruction\<close>

text \<open>
  C9. The destructor of a notification on which \<open>Show\<close> was never called passes the
  null handle to \<open>g_signal_handlers_disconnect_by_data\<close> and to \<open>g_object_unref\<close>:
  both calls it makes are invalid.
\<close>

theorem delete_without_Show:
  "new_events st (LibnotifyNotification_delete LibnotifyNotification_new st) =
     [Call_g_signal_handlers_disconnect_by_data None, Call_g_object_unref None] \<and>
   list_all invalid_call
     (new_events st (LibnotifyNotification_delete LibnotifyNotification_new st))"
  by (simp add: delete_eq LibnotifyNotification_new_def new_events_def)

end
